theory Spec2Isabelle
  imports Complex_Main
begin

section \<open>The Azure AD authenticator of oauthenticator/azuread.py\<close>

text \<open>
  The module is a Python class \<open>AzureAdOAuthenticator\<close> with two trait default
  generators for its URLs, a directory lookup \<open>get_user_attributes\<close> and the login
  callback \<open>authenticate\<close>. The embedding keeps the source's names (a leading
  underscore is dropped, since an Isabelle name cannot start with one), makes every
  exception a value of \<open>error + 'a\<close>, and threads the authenticator object, the
  requests it sends and the lines it logs through every call as an explicit state.
\<close>

subsection \<open>Python values and exceptions\<close>

text \<open>
  What \<open>json.loads\<close> returns and what the functions build: \<open>None\<close>, booleans,
  numbers, \<open>str\<close>, \<open>list\<close> and \<open>dict\<close> with string keys. A dict is an association
  list in insertion order; \<open>map_of\<close> reads it. Strings are byte lists.
\<close>

datatype pyval =
    PNone
  | PBool bool
  | PInt int
  | PFloat real
  | PStr string
  | PList "pyval list"
  | PDict "(string \<times> pyval) list"

type_synonym pydict = "(string \<times> pyval) list"

text \<open>
  The exceptions that can leave the two methods. \<open>JWTError\<close> stands for whatever
  \<open>jwt.decode\<close> raises, \<open>HTTPError\<close> and \<open>NetworkError\<close> for what the HTTP
  client raises, \<open>MissingArgumentError\<close> for \<open>handler.get_argument\<close>.
\<close>

datatype error =
    ValueError string
  | KeyError string
  | TypeError
  | JSONDecodeError
  | JWTError string
  | HTTPError nat
  | NetworkError
  | MissingArgumentError string

text \<open>
  \<open>obj[key]\<close> with a string key: a dict raises \<open>KeyError\<close> when the key is missing;
  every other value (\<open>None\<close>, a number, a string, a list) raises \<open>TypeError\<close>.
\<close>

fun getitem :: "pyval \<Rightarrow> string \<Rightarrow> error + pyval" where
  "getitem (PDict d) k = (case map_of d k of None \<Rightarrow> Inl (KeyError k) | Some v \<Rightarrow> Inr v)"
| "getitem _ k = Inl TypeError"

subsection \<open>Requests, the callback handler and the collaborators\<close>

text \<open>
  \<open>tornado.httpclient.HTTPRequest(url, method=..., headers=..., body=...)\<close>; the
  field \<open>http_method\<close> is its \<open>method\<close>.
\<close>

record http_request =
  url :: string
  http_method :: string
  headers :: "(string \<times> string) list"
  body :: "string option"

text \<open>The callback handler, as far as the module uses it: \<open>handler.get_argument\<close>.\<close>

record handler =
  get_argument :: "string \<Rightarrow> error + string"

text \<open>The keyword arguments of a call of \<open>jwt.decode\<close>; \<open>None\<close> is a keyword not given.\<close>

record jwt_kwargs =
  kw_options :: "(string \<times> bool) list option"
  kw_audience :: "string option"
  kw_verify :: "bool option"

text \<open>
  The libraries and surroundings the module calls but does not define. They are
  parameters of every function of the embedding:
  \<^item> \<open>environ\<close>: \<open>os.environ\<close>;
  \<^item> \<open>PYJWT_2\<close>: the module constant \<open>V(jwt.__version__) >= V("2.0")\<close>;
  \<^item> \<open>jwt_decode\<close>: \<open>jwt.decode\<close> of the installed PyJWT, on the token value and
    the keyword arguments it is called with;
  \<^item> \<open>urlencode\<close>: \<open>urllib.parse.urlencode(params, doseq=True, encoding='utf-8', safe='=')\<close>;
  \<^item> \<open>json_loads\<close>: \<open>json.loads\<close> on a decoded body, \<open>None\<close> where it raises;
  \<^item> \<open>http_fetch\<close>: what \<open>await http_client.fetch(req)\<close> gives for a request, the
    body of the response or the exception raised (the stub server of the spec);
  \<^item> \<open>get_callback_url\<close>: \<open>OAuthenticator.get_callback_url\<close>;
  \<^item> \<open>py_str\<close>: \<open>str(v)\<close> for a value that is not a \<open>str\<close> (used by \<open>format\<close>).
\<close>

record env =
  environ :: "string \<rightharpoonup> string"
  PYJWT_2 :: bool
  jwt_decode :: "pyval \<Rightarrow> jwt_kwargs \<Rightarrow> error + pydict"
  urlencode :: "pydict \<Rightarrow> string"
  json_loads :: "string \<Rightarrow> pyval option"
  http_fetch :: "http_request \<Rightarrow> error + string"
  get_callback_url :: "handler \<Rightarrow> string"
  py_str :: "pyval \<Rightarrow> string"

subsection \<open>The authenticator object and the effects of a call\<close>

text \<open>
  The traits \<open>tenant_id\<close>, \<open>username_claim\<close>, \<open>authorize_url\<close> and \<open>token_url\<close> have
  \<open>@default\<close> generators: a trait holds \<open>None\<close> until it is configured or read; the
  first read runs the generator and stores its value. \<open>access_token_version\<close> is a
  plain class attribute; \<open>client_id\<close> and \<open>client_secret\<close> are traits of the base
  class, taken with the values they have. \<open>requests\<close> lists the requests handed to
  the HTTP client, oldest first, and \<open>warnings\<close> the values whose \<open>repr\<close> was written
  by \<open>self.log.warning\<close>.
\<close>

record authenticator =
  tenant_id :: "string option"
  access_token_version :: int
  username_claim :: "string option"
  authorize_url :: "string option"
  token_url :: "string option"
  client_id :: string
  client_secret :: string
  requests :: "http_request list"
  warnings :: "pyval list"

subsection \<open>Trait defaults\<close>

definition tenant_id_default :: "env \<Rightarrow> string" where
  "tenant_id_default E =
     (case environ E ''AAD_TENANT_ID'' of None \<Rightarrow> '''' | Some v \<Rightarrow> v)"

definition username_claim_default :: string where
  "username_claim_default = ''name''"

text \<open>Reading \<open>self.tenant_id\<close> and \<open>self.username_claim\<close>.\<close>

definition get_tenant_id :: "env \<Rightarrow> authenticator \<Rightarrow> string \<times> authenticator" where
  "get_tenant_id E s =
     (case tenant_id s of
        Some t \<Rightarrow> (t, s)
      | None \<Rightarrow> (tenant_id_default E, s\<lparr>tenant_id := Some (tenant_id_default E)\<rparr>))"

definition get_username_claim :: "authenticator \<Rightarrow> string \<times> authenticator" where
  "get_username_claim s =
     (case username_claim s of
        Some c \<Rightarrow> (c, s)
      | None \<Rightarrow> (username_claim_default, s\<lparr>username_claim := Some username_claim_default\<rparr>))"

definition authorize_url_default ::
  "env \<Rightarrow> authenticator \<Rightarrow> (error + string) \<times> authenticator" where
  "authorize_url_default E s =
     (if access_token_version s = 1 then
        (case get_tenant_id E s of (t, s') \<Rightarrow>
           (Inr (''https://login.microsoftonline.com/'' @ t @ ''/oauth2/authorize''), s'))
      else if access_token_version s = 2 then
        (case get_tenant_id E s of (t, s') \<Rightarrow>
           (Inr (''https://login.microsoftonline.com/'' @ t @ ''/oauth2/v2.0/authorize''), s'))
      else (Inl (ValueError ''Invalid token version!''), s))"

definition token_url_default ::
  "env \<Rightarrow> authenticator \<Rightarrow> (error + string) \<times> authenticator" where
  "token_url_default E s =
     (if access_token_version s = 1 then
        (case get_tenant_id E s of (t, s') \<Rightarrow>
           (Inr (''https://login.microsoftonline.com/'' @ t @ ''/oauth2/token''), s'))
      else if access_token_version s = 2 then
        (case get_tenant_id E s of (t, s') \<Rightarrow>
           (Inr (''https://login.microsoftonline.com/'' @ t @ ''/oauth2/v2.0/token''), s'))
      else (Inl (ValueError ''Invalid token version!''), s))"

text \<open>
  Reading \<open>self.authorize_url\<close> and \<open>self.token_url\<close>: the configured or stored value,
  else the generator's, stored when the generator returns one.
\<close>

definition get_authorize_url ::
  "env \<Rightarrow> authenticator \<Rightarrow> (error + string) \<times> authenticator" where
  "get_authorize_url E s =
     (case authorize_url s of
        Some u \<Rightarrow> (Inr u, s)
      | None \<Rightarrow>
          (case authorize_url_default E s of
             (Inl e, s') \<Rightarrow> (Inl e, s')
           | (Inr u, s') \<Rightarrow> (Inr u, s'\<lparr>authorize_url := Some u\<rparr>)))"

definition get_token_url ::
  "env \<Rightarrow> authenticator \<Rightarrow> (error + string) \<times> authenticator" where
  "get_token_url E s =
     (case token_url s of
        Some u \<Rightarrow> (Inr u, s)
      | None \<Rightarrow>
          (case token_url_default E s of
             (Inl e, s') \<Rightarrow> (Inl e, s')
           | (Inr u, s') \<Rightarrow> (Inr u, s'\<lparr>token_url := Some u\<rparr>)))"

subsection \<open>HTTP calls\<close>

text \<open>\<open>await http_client.fetch(req)\<close>: the request is sent and the body or the exception comes back.\<close>

definition client_fetch ::
  "env \<Rightarrow> http_request \<Rightarrow> authenticator \<Rightarrow> (error + string) \<times> authenticator" where
  "client_fetch E req s = (http_fetch E req, s\<lparr>requests := requests s @ [req]\<rparr>)"

text \<open>\<open>json.loads(resp.body.decode('utf8', 'replace'))\<close>.\<close>

definition loads :: "env \<Rightarrow> string \<Rightarrow> error + pyval" where
  "loads E b = (case json_loads E b of None \<Rightarrow> Inl JSONDecodeError | Some j \<Rightarrow> Inr j)"

text \<open>
  Modelled from the spec: \<open>OAuthenticator.fetch\<close> of oauthenticator/oauth2.py, which
  \<open>authenticate\<close> calls as \<open>self.fetch(req)\<close> and which is not among the source files.
  The spec (4.2): one POST, no retry; a network failure or a non-2xx response propagates
  as a failure; a body that is not JSON fails with a parse error; otherwise the JSON
  response is the result.
\<close>

definition fetch ::
  "env \<Rightarrow> http_request \<Rightarrow> authenticator \<Rightarrow> (error + pyval) \<times> authenticator" where
  "fetch E req s =
     (case client_fetch E req s of
        (Inl e, s') \<Rightarrow> (Inl e, s')
      | (Inr b, s') \<Rightarrow> (loads E b, s'))"

subsection \<open>get\_user\_attributes\<close>

text \<open>\<open>'Bearer {0}'.format(access_token)\<close>: a \<open>str\<close> is inserted as it is.\<close>

definition format_str :: "env \<Rightarrow> pyval \<Rightarrow> string" where
  "format_str E v = (case v of PStr x \<Rightarrow> x | _ \<Rightarrow> py_str E v)"

definition content_type_headers :: "(string \<times> string) list" where
  "content_type_headers =
     [(''Content-Type'', ''application/x-www-form-urlencoded; charset=UTF-8'')]"

text \<open>The two requests of the lookup (lines 65 to 83 and 88 to 96 of the source).\<close>

definition credentials_params :: "authenticator \<Rightarrow> pydict" where
  "credentials_params s =
     [(''scope'', PList [PStr ''https://graph.microsoft.com/.default'']),
      (''client_secret'', PStr (client_secret s)),
      (''grant_type'', PStr ''client_credentials''),
      (''client_id'', PStr (client_id s))]"

definition credentials_request :: "env \<Rightarrow> authenticator \<Rightarrow> string \<Rightarrow> http_request" where
  "credentials_request E s u =
     \<lparr>url = u, http_method = ''POST'', headers = content_type_headers,
      body = Some (urlencode E (credentials_params s))\<rparr>"

definition graph_request :: "env \<Rightarrow> string \<Rightarrow> pyval \<Rightarrow> http_request" where
  "graph_request E oid access_token =
     \<lparr>url = ''https://graph.microsoft.com/v1.0/users/'' @ oid, http_method = ''GET'',
      headers = [(''Authorization'', ''Bearer '' @ format_str E access_token)],
      body = None\<rparr>"

definition get_user_attributes ::
  "env \<Rightarrow> string \<Rightarrow> authenticator \<Rightarrow> (error + pyval) \<times> authenticator" where
  "get_user_attributes E oid s =
     (case get_token_url E s of
        (Inl e, s1) \<Rightarrow> (Inl e, s1)
      | (Inr u, s1) \<Rightarrow>
     (case client_fetch E (credentials_request E s u) s1 of
        (Inl e, s2) \<Rightarrow> (Inl e, s2)
      | (Inr b, s2) \<Rightarrow>
     (case loads E b of
        Inl e \<Rightarrow> (Inl e, s2)
      | Inr resp_json \<Rightarrow>
     (case getitem resp_json ''access_token'' of
        Inl e \<Rightarrow> (Inl e, s2)
      | Inr access_token \<Rightarrow>
     (case client_fetch E (graph_request E oid access_token) s2 of
        (Inl e, s3) \<Rightarrow> (Inl e, s3)
      | (Inr b', s3) \<Rightarrow> (loads E b', s3))))))"

subsection \<open>authenticate\<close>

text \<open>The token request (lines 105 to 126 of the source).\<close>

definition code_params :: "env \<Rightarrow> authenticator \<Rightarrow> handler \<Rightarrow> string \<Rightarrow> pydict" where
  "code_params E s h code =
     [(''client_id'', PStr (client_id s)),
      (''client_secret'', PStr (client_secret s)),
      (''grant_type'', PStr ''authorization_code''),
      (''code'', PStr code),
      (''redirect_uri'', PStr (get_callback_url E h))]"

definition token_request ::
  "env \<Rightarrow> authenticator \<Rightarrow> handler \<Rightarrow> string \<Rightarrow> string \<Rightarrow> http_request" where
  "token_request E s h code u =
     \<lparr>url = u, http_method = ''POST'', headers = content_type_headers,
      body = Some (urlencode E (code_params E s h code))\<rparr>"

text \<open>The two ways \<open>jwt.decode\<close> is called (lines 133 to 141).\<close>

definition decode_id_token :: "env \<Rightarrow> authenticator \<Rightarrow> pyval \<Rightarrow> error + pydict" where
  "decode_id_token E s id_token =
     (if PYJWT_2 E then
        jwt_decode E id_token
          \<lparr>kw_options = Some [(''verify_signature'', False)],
           kw_audience = Some (client_id s), kw_verify = None\<rparr>
      else
        jwt_decode E id_token
          \<lparr>kw_options = None, kw_audience = None, kw_verify = Some False\<rparr>)"

text \<open>The returned \<open>userdict\<close> (lines 144 to 148).\<close>

definition userdict :: "pyval \<Rightarrow> pyval \<Rightarrow> pydict \<Rightarrow> pyval" where
  "userdict name access_token decoded =
     PDict [(''name'', name),
            (''auth_state'',
               PDict [(''access_token'', access_token), (''user'', PDict decoded)])]"

definition authenticate ::
  "env \<Rightarrow> handler \<Rightarrow> authenticator \<Rightarrow> (error + pyval) \<times> authenticator" where
  "authenticate E h s =
     (case get_argument h ''code'' of
        Inl e \<Rightarrow> (Inl e, s)
      | Inr code \<Rightarrow>
     (case get_token_url E s of
        (Inl e, s1) \<Rightarrow> (Inl e, s1)
      | (Inr u, s1) \<Rightarrow>
     (case fetch E (token_request E s h code u) s1 of
        (Inl e, s2) \<Rightarrow> (Inl e, s2)
      | (Inr resp_json, s2) \<Rightarrow>
     (case getitem resp_json ''access_token'' of
        Inl e \<Rightarrow> (Inl e, s2)
      | Inr access_token \<Rightarrow>
     (case getitem resp_json ''id_token'' of
        Inl e \<Rightarrow> (Inl e, s2)
      | Inr id_token \<Rightarrow>
     (case decode_id_token E s2 id_token of
        Inl e \<Rightarrow> (Inl e, s2)
      | Inr decoded \<Rightarrow>
     (case get_username_claim (s2\<lparr>warnings := warnings s2 @ [PDict decoded]\<rparr>) of
        (claim, s3) \<Rightarrow>
     (case getitem (PDict decoded) claim of
        Inl e \<Rightarrow> (Inl e, s3)
      | Inr name \<Rightarrow> (Inr (userdict name access_token decoded), s3)))))))))"

subsection \<open>A stub world for concrete runs\<close>

text \<open>
  The stub server of the spec's testable properties: every POST is answered with the
  body \<open>token-body\<close> and every GET with \<open>graph-body\<close>; \<open>bodies\<close> says how each body
  parses as JSON (a body it does not list is not JSON); the token \<open>h.p.sig\<close> decodes
  to \<open>claims\<close> and every other token is refused. No tenant is set in the environment.
\<close>

definition stub_env :: "(string \<times> pyval) list \<Rightarrow> pydict \<Rightarrow> env" where
  "stub_env bodies claims =
     \<lparr>environ = Map.empty,
      PYJWT_2 = True,
      jwt_decode = (\<lambda>tok kw. if tok = PStr ''h.p.sig'' then Inr claims
                               else Inl (JWTError ''Invalid token'')),
      urlencode = (\<lambda>ps. concat (map (\<lambda>p. fst p @ ''&'') ps)),
      json_loads = map_of bodies,
      http_fetch = (\<lambda>req. if http_method req = ''POST'' then Inr ''token-body''
                           else Inr ''graph-body''),
      get_callback_url = (\<lambda>h. ''https://hub.example/hub/oauth_callback''),
      py_str = (\<lambda>v. ''None'')\<rparr>"

definition stub_handler :: handler where
  "stub_handler =
     \<lparr>get_argument = (\<lambda>k. if k = ''code'' then Inr ''c0de''
                             else Inl (MissingArgumentError k))\<rparr>"

definition stub_self :: authenticator where
  "stub_self =
     \<lparr>tenant_id = Some ''abc'', access_token_version = 1, username_claim = None,
      authorize_url = None, token_url = None, client_id = ''client1'',
      client_secret = ''s3cret'', requests = [], warnings = []\<rparr>"

definition token_response :: pyval where
  "token_response = PDict [(''access_token'', PStr ''A''), (''id_token'', PStr ''h.p.sig'')]"

definition alice_claims :: pydict where
  "alice_claims = [(''name'', PStr ''alice''), (''aud'', PStr ''client1'')]"

section \<open>Properties\<close>

subsection \<open>What reading a trait leaves unchanged\<close>

lemma get_tenant_id_frame:
  "get_tenant_id E s = (t, s') \<Longrightarrow>
     client_id s' = client_id s \<and> client_secret s' = client_secret s \<and>
     username_claim s' = username_claim s \<and> token_url s' = token_url s \<and>
     authorize_url s' = authorize_url s \<and>
     access_token_version s' = access_token_version s \<and>
     requests s' = requests s \<and> warnings s' = warnings s"
  by (auto simp: get_tenant_id_def split: option.splits)

lemma token_url_default_frame:
  "token_url_default E s = (r, s') \<Longrightarrow>
     client_id s' = client_id s \<and> client_secret s' = client_secret s \<and>
     username_claim s' = username_claim s \<and> token_url s' = token_url s \<and>
     requests s' = requests s \<and> warnings s' = warnings s"
  using get_tenant_id_frame [of E s]
  by (auto simp: token_url_default_def split: if_splits prod.splits)

lemma token_url_default_Inl:
  "token_url_default E s = (Inl e, s') \<Longrightarrow> s' = s"
  by (auto simp: token_url_default_def split: if_splits prod.splits)

lemma get_token_url_frame:
  "get_token_url E s = (r, s') \<Longrightarrow>
     client_id s' = client_id s \<and> client_secret s' = client_secret s \<and>
     username_claim s' = username_claim s \<and>
     requests s' = requests s \<and> warnings s' = warnings s"
  using token_url_default_frame [of E s]
  by (auto simp: get_token_url_def split: option.splits prod.splits sum.splits)

lemma get_token_url_Inl:
  "get_token_url E s = (Inl e, s') \<Longrightarrow> s' = s"
  using token_url_default_Inl [of E s]
  by (auto simp: get_token_url_def split: option.splits prod.splits sum.splits)

lemma get_token_url_Inr:
  "get_token_url E s = (Inr u, s') \<Longrightarrow> token_url s' = Some u"
  using token_url_default_frame [of E s]
  by (auto simp: get_token_url_def split: option.splits prod.splits sum.splits)

lemma get_token_url_stored:
  "token_url s = Some u \<Longrightarrow> get_token_url E s = (Inr u, s)"
  by (simp add: get_token_url_def)

lemma get_username_claim_fst:
  "fst (get_username_claim s) =
     (case username_claim s of Some c \<Rightarrow> c | None \<Rightarrow> username_claim_default)"
  by (simp add: get_username_claim_def split: option.split)

lemma get_username_claim_snd:
  "client_id (snd (get_username_claim s)) = client_id s \<and>
   client_secret (snd (get_username_claim s)) = client_secret s \<and>
   token_url (snd (get_username_claim s)) = token_url s \<and>
   fst (get_username_claim (snd (get_username_claim s))) = fst (get_username_claim s)"
  by (simp add: get_username_claim_def split: option.split)

lemma decode_id_token_cong:
  "client_id s' = client_id s \<Longrightarrow> decode_id_token E s' tok = decode_id_token E s tok"
  by (simp add: decode_id_token_def)

lemma token_request_cong:
  "client_id s' = client_id s \<Longrightarrow> client_secret s' = client_secret s \<Longrightarrow>
   token_request E s' h code u = token_request E s h code u"
  by (simp add: token_request_def code_params_def)

subsection \<open>The token exchange\<close>

lemma fetch_frame:
  "fetch E req s = (r, s') \<Longrightarrow> s' = s\<lparr>requests := requests s @ [req]\<rparr>"
  by (auto simp: fetch_def client_fetch_def split: sum.splits)

lemma fetch_fst:
  "fst (fetch E req s) = (case http_fetch E req of Inl e \<Rightarrow> Inl e | Inr b \<Rightarrow> loads E b)"
  by (simp add: fetch_def client_fetch_def split: sum.split)

text \<open>
  The result of \<open>authenticate\<close> as a function of the callback, the collaborators and
  the configuration alone: the requests sent and the lines logged before do not enter.
\<close>

lemma authenticate_fst:
  "fst (authenticate E h s) =
     (case get_argument h ''code'' of Inl e \<Rightarrow> Inl e | Inr code \<Rightarrow>
     (case fst (get_token_url E s) of Inl e \<Rightarrow> Inl e | Inr u \<Rightarrow>
     (case fst (fetch E (token_request E s h code u) s) of Inl e \<Rightarrow> Inl e | Inr resp_json \<Rightarrow>
     (case getitem resp_json ''access_token'' of Inl e \<Rightarrow> Inl e | Inr access_token \<Rightarrow>
     (case getitem resp_json ''id_token'' of Inl e \<Rightarrow> Inl e | Inr id_token \<Rightarrow>
     (case decode_id_token E s id_token of Inl e \<Rightarrow> Inl e | Inr decoded \<Rightarrow>
     (case getitem (PDict decoded) (fst (get_username_claim s)) of Inl e \<Rightarrow> Inl e
      | Inr name \<Rightarrow> Inr (userdict name access_token decoded))))))))"
proof (cases "get_argument h ''code''")
  case (Inl e)
  then show ?thesis by (simp add: authenticate_def)
next
  case code: (Inr code)
  obtain x s1 where tu: "get_token_url E s = (x, s1)" by (cases "get_token_url E s")
  note fr = get_token_url_frame [OF tu]
  show ?thesis
  proof (cases x)
    case (Inl e)
    with code tu show ?thesis by (simp add: authenticate_def)
  next
    case u: (Inr u)
    obtain y s2 where fe: "fetch E (token_request E s h code u) s1 = (y, s2)"
      by (cases "fetch E (token_request E s h code u) s1")
    have s2: "s2 = s1\<lparr>requests := requests s1 @ [token_request E s h code u]\<rparr>"
      using fetch_frame [OF fe] .
    have y: "fst (fetch E (token_request E s h code u) s) = y"
      using fe by (simp add: fetch_fst [of E _ s] fetch_fst [of E _ s1, symmetric])
    have dec: "decode_id_token E s2 t = decode_id_token E s t" for t
      using fr s2 by (simp add: decode_id_token_def)
    have uc: "fst (get_username_claim (s2\<lparr>warnings := w\<rparr>)) = fst (get_username_claim s)" for w
      using fr s2 by (simp add: get_username_claim_fst)
    have "fst (authenticate E h s) =
       (case y of Inl e \<Rightarrow> Inl e | Inr resp_json \<Rightarrow>
       (case getitem resp_json ''access_token'' of Inl e \<Rightarrow> Inl e | Inr access_token \<Rightarrow>
       (case getitem resp_json ''id_token'' of Inl e \<Rightarrow> Inl e | Inr id_token \<Rightarrow>
       (case decode_id_token E s2 id_token of Inl e \<Rightarrow> Inl e | Inr decoded \<Rightarrow>
       (case getitem (PDict decoded)
               (fst (get_username_claim (s2\<lparr>warnings := warnings s2 @ [PDict decoded]\<rparr>))) of
          Inl e \<Rightarrow> Inl e
        | Inr name \<Rightarrow> Inr (userdict name access_token decoded))))))"
      unfolding authenticate_def using code tu u fe
      by (simp add: split_beta sum.case_distrib [of fst] del: getitem.simps cong: sum.case_cong)
    then show ?thesis unfolding dec uc using code tu u y by simp
  qed
qed

text \<open>What a call of \<open>authenticate\<close> leaves of the configuration for the next call.\<close>

lemma authenticate_frame:
  "client_id (snd (authenticate E h s)) = client_id s \<and>
   client_secret (snd (authenticate E h s)) = client_secret s \<and>
   fst (get_username_claim (snd (authenticate E h s))) = fst (get_username_claim s) \<and>
   fst (get_token_url E (snd (authenticate E h s))) = fst (get_token_url E s)"
proof (cases "get_argument h ''code''")
  case (Inl e)
  then show ?thesis by (simp add: authenticate_def)
next
  case code: (Inr code)
  obtain x s1 where tu: "get_token_url E s = (x, s1)" by (cases "get_token_url E s")
  note fr = get_token_url_frame [OF tu]
  show ?thesis
  proof (cases x)
    case (Inl e)
    with code tu get_token_url_Inl [of E s e s1] show ?thesis
      by (simp add: authenticate_def)
  next
    case u: (Inr u)
    have st: "token_url s1 = Some u" using get_token_url_Inr tu u by simp
    obtain y s2 where fe: "fetch E (token_request E s h code u) s1 = (y, s2)"
      by (cases "fetch E (token_request E s h code u) s1")
    have s2: "s2 = s1\<lparr>requests := requests s1 @ [token_request E s h code u]\<rparr>"
      using fetch_frame [OF fe] .
    have uc: "fst (get_username_claim (s2\<lparr>warnings := w\<rparr>)) = fst (get_username_claim s1)" for w
      by (simp add: s2 get_username_claim_fst)
    have *: "client_id (snd (authenticate E h s)) = client_id s1 \<and>
       client_secret (snd (authenticate E h s)) = client_secret s1 \<and>
       token_url (snd (authenticate E h s)) = Some u \<and>
       fst (get_username_claim (snd (authenticate E h s))) = fst (get_username_claim s1)"
      unfolding authenticate_def using code tu u fe
      by (simp add: split_beta get_username_claim_snd uc del: getitem.simps split: sum.split)
        (simp add: s2 st get_username_claim_fst)
    then show ?thesis using fr tu u
      by (simp add: get_token_url_stored get_username_claim_fst)
  qed
qed

subsection \<open>URL resolution\<close>

text \<open>
  Claim C4. For every tenant identifier \<open>t\<close>, URL resolution with API version 1 yields
  the authorize URL \<open>https://login.microsoftonline.com/t/oauth2/authorize\<close> and the
  token URL \<open>https://login.microsoftonline.com/t/oauth2/token\<close>; with API version 2
  it yields the same URLs with \<open>/v2.0/\<close> before the last path component. For tenant
  \<open>abc\<close> and version 1 the authorize URL is exactly
  \<open>https://login.microsoftonline.com/abc/oauth2/authorize\<close>.
\<close>

theorem url_resolution_by_version:
  "fst (authorize_url_default E (s\<lparr>tenant_id := Some t, access_token_version := 1\<rparr>)) =
     Inr (''https://login.microsoftonline.com/'' @ t @ ''/oauth2/authorize'') \<and>
   fst (token_url_default E (s\<lparr>tenant_id := Some t, access_token_version := 1\<rparr>)) =
     Inr (''https://login.microsoftonline.com/'' @ t @ ''/oauth2/token'') \<and>
   fst (authorize_url_default E (s\<lparr>tenant_id := Some t, access_token_version := 2\<rparr>)) =
     Inr (''https://login.microsoftonline.com/'' @ t @ ''/oauth2'' @ ''/v2.0'' @ ''/authorize'') \<and>
   fst (token_url_default E (s\<lparr>tenant_id := Some t, access_token_version := 2\<rparr>)) =
     Inr (''https://login.microsoftonline.com/'' @ t @ ''/oauth2'' @ ''/v2.0'' @ ''/token'') \<and>
   fst (authorize_url_default E (s\<lparr>tenant_id := Some ''abc'', access_token_version := 1\<rparr>)) =
     Inr ''https://login.microsoftonline.com/abc/oauth2/authorize'' \<and>
   fst (token_url_default E (s\<lparr>tenant_id := Some ''abc'', access_token_version := 1\<rparr>)) =
     Inr ''https://login.microsoftonline.com/abc/oauth2/token'' \<and>
   fst (authorize_url_default E (s\<lparr>tenant_id := Some ''abc'', access_token_version := 2\<rparr>)) =
     Inr ''https://login.microsoftonline.com/abc/oauth2/v2.0/authorize'' \<and>
   fst (token_url_default E (s\<lparr>tenant_id := Some ''abc'', access_token_version := 2\<rparr>)) =
     Inr ''https://login.microsoftonline.com/abc/oauth2/v2.0/token''"
  by (simp add: authorize_url_default_def token_url_default_def get_tenant_id_def)

text \<open>
  Claim C5. For every API version other than 1 and 2, deriving the authorize URL and
  deriving the token URL both fail with \<open>ValueError('Invalid token version!')\<close>, the
  configuration error of the code. Nothing is stored: the first read of an unset URL
  trait fails the same way and leaves the object as it was, and so does
  \<open>authenticate\<close> on its first use of the token URL.
\<close>

theorem invalid_version_fails:
  assumes "access_token_version s \<noteq> 1" and "access_token_version s \<noteq> 2"
  shows "authorize_url_default E s = (Inl (ValueError ''Invalid token version!''), s) \<and>
         token_url_default E s = (Inl (ValueError ''Invalid token version!''), s) \<and>
         (authorize_url s = None \<longrightarrow>
            get_authorize_url E s = (Inl (ValueError ''Invalid token version!''), s)) \<and>
         (token_url s = None \<longrightarrow>
            get_token_url E s = (Inl (ValueError ''Invalid token version!''), s)) \<and>
         (token_url s = None \<and> get_argument h ''code'' = Inr code \<longrightarrow>
            authenticate E h s = (Inl (ValueError ''Invalid token version!''), s))"
  using assms
  by (simp add: authorize_url_default_def token_url_default_def get_authorize_url_def
      get_token_url_def authenticate_def)

theorem invalid_version_fails_witness:
  "access_token_version (stub_self\<lparr>access_token_version := 3\<rparr>) \<noteq> 1 \<and>
   access_token_version (stub_self\<lparr>access_token_version := 3\<rparr>) \<noteq> 2 \<and>
   token_url (stub_self\<lparr>access_token_version := 3\<rparr>) = None \<and>
   get_argument stub_handler ''code'' = Inr ''c0de'' \<and>
   fst (authorize_url_default (stub_env [] []) (stub_self\<lparr>access_token_version := 3\<rparr>)) =
     Inl (ValueError ''Invalid token version!'') \<and>
   fst (token_url_default (stub_env [] []) (stub_self\<lparr>access_token_version := 3\<rparr>)) =
     Inl (ValueError ''Invalid token version!'') \<and>
   fst (get_authorize_url (stub_env [] []) (stub_self\<lparr>access_token_version := 3\<rparr>)) =
     Inl (ValueError ''Invalid token version!'') \<and>
   fst (get_token_url (stub_env [] []) (stub_self\<lparr>access_token_version := 3\<rparr>)) =
     Inl (ValueError ''Invalid token version!'') \<and>
   fst (authenticate (stub_env [] []) stub_handler (stub_self\<lparr>access_token_version := 3\<rparr>)) =
     Inl (ValueError ''Invalid token version!'')"
proof -
  have v: "access_token_version (stub_self\<lparr>access_token_version := 3\<rparr>) \<noteq> 1"
    "access_token_version (stub_self\<lparr>access_token_version := 3\<rparr>) \<noteq> 2"
    by simp_all
  have c: "token_url (stub_self\<lparr>access_token_version := 3\<rparr>) = None"
    "authorize_url (stub_self\<lparr>access_token_version := 3\<rparr>) = None"
    "get_argument stub_handler ''code'' = Inr ''c0de''"
    by (simp_all add: stub_self_def stub_handler_def)
  show ?thesis
    using invalid_version_fails [OF v, of "stub_env [] []" stub_handler "''c0de''"] v c
    by simp
qed

subsection \<open>Repeating the exchange\<close>

text \<open>
  Claim C8. \<open>authenticate\<close> is deterministic and keeps no hidden state between
  calls: with the same callback (the same authorization code) and a server that
  answers the same request with the same response, a second run, started from the
  object as the first run left it, yields the identity record (or the error) of the
  first.
\<close>

theorem authenticate_idempotent:
  "fst (authenticate E h (snd (authenticate E h s))) = fst (authenticate E h s)"
proof -
  define s' where "s' = snd (authenticate E h s)"
  note fr = authenticate_frame [of E h s, folded s'_def]
  have tr: "token_request E s' h code u = token_request E s h code u" for code u
    using fr by (intro token_request_cong) simp_all
  have dec: "decode_id_token E s' t = decode_id_token E s t" for t
    using fr by (intro decode_id_token_cong) simp_all
  have ff: "fst (fetch E req s') = fst (fetch E req s)" for req
    by (simp add: fetch_fst)
  have uc: "fst (get_username_claim s') = fst (get_username_claim s)"
    and tu: "fst (get_token_url E s') = fst (get_token_url E s)"
    using fr by simp_all
  have "fst (authenticate E h s') = fst (authenticate E h s)"
    unfolding authenticate_fst tr dec ff uc tu ..
  then show ?thesis by (simp only: s'_def)
qed

subsection \<open>Steps of a successful exchange\<close>

text \<open>Every step of \<open>authenticate\<close> that a returned record went through.\<close>

lemma authenticate_inversion:
  assumes "authenticate E h s = (Inr r, s')"
  shows "\<exists>code u s1 resp_json s2 access_token id_token decoded claim name.
           get_argument h ''code'' = Inr code \<and>
           get_token_url E s = (Inr u, s1) \<and>
           fetch E (token_request E s h code u) s1 = (Inr resp_json, s2) \<and>
           getitem resp_json ''access_token'' = Inr access_token \<and>
           getitem resp_json ''id_token'' = Inr id_token \<and>
           decode_id_token E s2 id_token = Inr decoded \<and>
           get_username_claim (s2\<lparr>warnings := warnings s2 @ [PDict decoded]\<rparr>) = (claim, s') \<and>
           getitem (PDict decoded) claim = Inr name \<and>
           r = userdict name access_token decoded"
  using assms unfolding authenticate_def
  by (auto split: sum.splits prod.splits)


subsection \<open>Runs against the stub world\<close>

lemma stub_token_url:
  "get_token_url (stub_env bodies claims) stub_self =
     (Inr ''https://login.microsoftonline.com/abc/oauth2/token'',
      stub_self\<lparr>token_url := Some ''https://login.microsoftonline.com/abc/oauth2/token''\<rparr>)"
  by (simp add: get_token_url_def token_url_default_def get_tenant_id_def stub_self_def)

lemma stub_code: "get_argument stub_handler ''code'' = Inr ''c0de''"
  by (simp add: stub_handler_def)

lemma stub_fetch:
  "fst (fetch (stub_env bodies claims) (token_request E' s' h' c' u') s1) =
     (case map_of bodies ''token-body'' of None \<Rightarrow> Inl JSONDecodeError | Some j \<Rightarrow> Inr j)"
  by (simp add: fetch_fst loads_def token_request_def stub_env_def)

lemma stub_decode:
  "decode_id_token (stub_env bodies claims) s (PStr ''h.p.sig'') = Inr claims"
  by (simp add: decode_id_token_def stub_env_def)

lemma stub_run:
  "fst (authenticate (stub_env [(''token-body'', token_response)] claims)
          stub_handler stub_self) =
     (case map_of claims ''name'' of
        None \<Rightarrow> Inl (KeyError ''name'')
      | Some n \<Rightarrow> Inr (userdict n (PStr ''A'') claims))"
proof -
  have n: "fst (get_username_claim stub_self) = ''name''"
    by (simp add: get_username_claim_fst username_claim_default_def stub_self_def)
  show ?thesis
    by (simp add: authenticate_fst stub_code stub_token_url stub_fetch stub_decode
        token_response_def n split: option.split)
qed

lemma stub_token_url_claim:
  "get_token_url (stub_env bodies claims) (stub_self\<lparr>username_claim := c\<rparr>) =
     (Inr ''https://login.microsoftonline.com/abc/oauth2/token'',
      stub_self\<lparr>username_claim := c,
                token_url := Some ''https://login.microsoftonline.com/abc/oauth2/token''\<rparr>)"
  by (simp add: get_token_url_def token_url_default_def get_tenant_id_def stub_self_def)

lemma stub_run_claim:
  "fst (authenticate (stub_env [(''token-body'', token_response)] claims)
          stub_handler (stub_self\<lparr>username_claim := Some k\<rparr>)) =
     (case map_of claims k of
        None \<Rightarrow> Inl (KeyError k)
      | Some n \<Rightarrow> Inr (userdict n (PStr ''A'') claims))"
proof -
  have n: "fst (get_username_claim (stub_self\<lparr>username_claim := Some k\<rparr>)) = k"
    by (simp add: get_username_claim_fst)
  show ?thesis
    by (simp add: authenticate_fst stub_code stub_token_url_claim stub_fetch stub_decode
        token_response_def n split: option.split)
qed

subsection \<open>A missing tenant\<close>

text \<open>The request \<open>authenticate\<close> sends once the code and the token URL are there.\<close>

lemma authenticate_requests:
  assumes "get_argument h ''code'' = Inr code"
    and "get_token_url E s = (Inr u, s1)"
  shows "requests (snd (authenticate E h s)) = requests s @ [token_request E s h code u]"
proof -
  obtain y s2 where fe: "fetch E (token_request E s h code u) s1 = (y, s2)"
    by (cases "fetch E (token_request E s h code u) s1")
  have s2: "s2 = s1\<lparr>requests := requests s1 @ [token_request E s h code u]\<rparr>"
    using fetch_frame [OF fe] .
  have rq: "requests s1 = requests s"
    using get_token_url_frame [OF assms(2)] by simp
  have u: "requests (snd (get_username_claim t)) = requests t" for t
    by (simp add: get_username_claim_def split: option.split)
  have "requests (snd (authenticate E h s)) = requests s2"
    unfolding authenticate_def using assms fe
    by (simp add: split_beta u del: getitem.simps split: sum.split)
  then show ?thesis by (simp add: s2 rq)
qed

lemma get_token_url_unset:
  assumes "tenant_id s = None" and "token_url s = None"
    and "access_token_version s = 1 \<or> access_token_version s = 2"
  shows "get_token_url E s =
           (Inr (''https://login.microsoftonline.com/'' @ tenant_id_default E @
                 (if access_token_version s = 1 then ''/oauth2/token''
                  else ''/oauth2/v2.0/token'')),
            s\<lparr>tenant_id := Some (tenant_id_default E),
              token_url := Some (''https://login.microsoftonline.com/'' @ tenant_id_default E @
                 (if access_token_version s = 1 then ''/oauth2/token''
                  else ''/oauth2/v2.0/token''))\<rparr>)"
  using assms by (auto simp: get_token_url_def token_url_default_def get_tenant_id_def)

text \<open>
  Claim C9, as the code has it. A missing tenant identifier is not an error. An unset
  tenant defaults to the environment variable \<open>AAD_TENANT_ID\<close>, or to the empty
  string when that is not set, and URL resolution goes on with it: for API versions 1
  and 2 it yields \<open>https://login.microsoftonline.com/\<close>, the default tenant and the
  path, so \<open>https://login.microsoftonline.com//oauth2/token\<close> for the empty one.
  \<open>authenticate\<close> goes on as well: with an unset tenant it returns what it returns
  with the tenant set to that default, and it sends its token request to the URL built
  from the default. URL resolution fails exactly when the API version is neither 1
  nor 2.
\<close>

theorem missing_tenant_proceeds:
  "tenant_id_default E =
     (case environ E ''AAD_TENANT_ID'' of None \<Rightarrow> '''' | Some v \<Rightarrow> v) \<and>
   (\<exists>e. fst (authorize_url_default E s) = Inl e) =
     (access_token_version s \<noteq> 1 \<and> access_token_version s \<noteq> 2) \<and>
   (\<exists>e. fst (token_url_default E s) = Inl e) =
     (access_token_version s \<noteq> 1 \<and> access_token_version s \<noteq> 2) \<and>
   fst (authorize_url_default E (s\<lparr>tenant_id := None, access_token_version := 1\<rparr>)) =
     Inr (''https://login.microsoftonline.com/'' @
          (case environ E ''AAD_TENANT_ID'' of None \<Rightarrow> '''' | Some v \<Rightarrow> v) @
          ''/oauth2/authorize'') \<and>
   fst (token_url_default E (s\<lparr>tenant_id := None, access_token_version := 1\<rparr>)) =
     Inr (''https://login.microsoftonline.com/'' @
          (case environ E ''AAD_TENANT_ID'' of None \<Rightarrow> '''' | Some v \<Rightarrow> v) @
          ''/oauth2/token'') \<and>
   fst (authorize_url_default E (s\<lparr>tenant_id := None, access_token_version := 2\<rparr>)) =
     Inr (''https://login.microsoftonline.com/'' @
          (case environ E ''AAD_TENANT_ID'' of None \<Rightarrow> '''' | Some v \<Rightarrow> v) @
          ''/oauth2/v2.0/authorize'') \<and>
   fst (token_url_default E (s\<lparr>tenant_id := None, access_token_version := 2\<rparr>)) =
     Inr (''https://login.microsoftonline.com/'' @
          (case environ E ''AAD_TENANT_ID'' of None \<Rightarrow> '''' | Some v \<Rightarrow> v) @
          ''/oauth2/v2.0/token'') \<and>
   fst (token_url_default (E\<lparr>environ := Map.empty\<rparr>)
          (s\<lparr>tenant_id := None, access_token_version := 1\<rparr>)) =
     Inr ''https://login.microsoftonline.com//oauth2/token'' \<and>
   fst (authenticate E h (s\<lparr>tenant_id := None\<rparr>)) =
     fst (authenticate E h
            (s\<lparr>tenant_id :=
                 Some (case environ E ''AAD_TENANT_ID'' of None \<Rightarrow> '''' | Some v \<Rightarrow> v)\<rparr>)) \<and>
   (tenant_id s = None \<and> token_url s = None \<and>
    (access_token_version s = 1 \<or> access_token_version s = 2) \<and>
    get_argument h ''code'' = Inr code \<longrightarrow>
      requests (snd (authenticate E h s)) =
        requests s @
          [token_request E s h code
             (''https://login.microsoftonline.com/'' @
              (case environ E ''AAD_TENANT_ID'' of None \<Rightarrow> '''' | Some v \<Rightarrow> v) @
              (if access_token_version s = 1 then ''/oauth2/token''
               else ''/oauth2/v2.0/token''))])"
proof -
  let ?t = "case environ E ''AAD_TENANT_ID'' of None \<Rightarrow> '''' | Some v \<Rightarrow> v"
  have d: "tenant_id_default E = ?t" by (simp add: tenant_id_default_def)
  have urls:
    "(\<exists>e. fst (authorize_url_default E s) = Inl e) =
       (access_token_version s \<noteq> 1 \<and> access_token_version s \<noteq> 2)"
    "(\<exists>e. fst (token_url_default E s) = Inl e) =
       (access_token_version s \<noteq> 1 \<and> access_token_version s \<noteq> 2)"
    "fst (authorize_url_default E (s\<lparr>tenant_id := None, access_token_version := 1\<rparr>)) =
       Inr (''https://login.microsoftonline.com/'' @ ?t @ ''/oauth2/authorize'')"
    "fst (token_url_default E (s\<lparr>tenant_id := None, access_token_version := 1\<rparr>)) =
       Inr (''https://login.microsoftonline.com/'' @ ?t @ ''/oauth2/token'')"
    "fst (authorize_url_default E (s\<lparr>tenant_id := None, access_token_version := 2\<rparr>)) =
       Inr (''https://login.microsoftonline.com/'' @ ?t @ ''/oauth2/v2.0/authorize'')"
    "fst (token_url_default E (s\<lparr>tenant_id := None, access_token_version := 2\<rparr>)) =
       Inr (''https://login.microsoftonline.com/'' @ ?t @ ''/oauth2/v2.0/token'')"
    "fst (token_url_default (E\<lparr>environ := Map.empty\<rparr>)
            (s\<lparr>tenant_id := None, access_token_version := 1\<rparr>)) =
       Inr ''https://login.microsoftonline.com//oauth2/token''"
    by (simp_all add: authorize_url_default_def token_url_default_def get_tenant_id_def
        tenant_id_default_def split_beta)
  have tu: "fst (get_token_url E (s\<lparr>tenant_id := None\<rparr>)) =
              fst (get_token_url E (s\<lparr>tenant_id := Some ?t\<rparr>))"
    by (simp add: get_token_url_def token_url_default_def get_tenant_id_def
        tenant_id_default_def split_beta split: option.split)
  have tr: "token_request E (s\<lparr>tenant_id := a\<rparr>) h c u = token_request E s h c u" for a c u
    by (simp add: token_request_def code_params_def)
  have dec: "decode_id_token E (s\<lparr>tenant_id := a\<rparr>) t = decode_id_token E s t" for a t
    by (simp add: decode_id_token_def)
  have ff: "fst (fetch E req (s\<lparr>tenant_id := a\<rparr>)) = fst (fetch E req s)" for req a
    by (simp add: fetch_fst)
  have uc: "fst (get_username_claim (s\<lparr>tenant_id := a\<rparr>)) = fst (get_username_claim s)" for a
    by (simp add: get_username_claim_fst)
  have au: "fst (authenticate E h (s\<lparr>tenant_id := None\<rparr>)) =
              fst (authenticate E h (s\<lparr>tenant_id := Some ?t\<rparr>))"
    unfolding authenticate_fst tr dec ff uc tu ..
  have rq: "requests (snd (authenticate E h s)) =
              requests s @
                [token_request E s h code
                   (''https://login.microsoftonline.com/'' @ ?t @
                    (if access_token_version s = 1 then ''/oauth2/token''
                     else ''/oauth2/v2.0/token''))]"
    if "tenant_id s = None" "token_url s = None"
      "access_token_version s = 1 \<or> access_token_version s = 2"
      "get_argument h ''code'' = Inr code"
    using authenticate_requests [OF that(4) get_token_url_unset [OF that(1-3), of E]]
    by (simp only: d)
  from d urls au rq show ?thesis by blast
qed

theorem missing_tenant_proceeds_witness:
  "map url (requests (snd (authenticate
      ((stub_env [(''token-body'', token_response)] alice_claims)
         \<lparr>environ := [''AAD_TENANT_ID'' \<mapsto> ''xyz'']\<rparr>)
      stub_handler (stub_self\<lparr>tenant_id := None\<rparr>)))) =
     [''https://login.microsoftonline.com/xyz/oauth2/token''] \<and>
   map url (requests (snd (authenticate
      (stub_env [(''token-body'', token_response)] alice_claims)
      stub_handler (stub_self\<lparr>tenant_id := None, access_token_version := 2\<rparr>)))) =
     [''https://login.microsoftonline.com//oauth2/v2.0/token'']"
proof -
  have s: "tenant_id (stub_self\<lparr>tenant_id := None\<rparr>) = None \<and>
           token_url (stub_self\<lparr>tenant_id := None\<rparr>) = None \<and>
           (access_token_version (stub_self\<lparr>tenant_id := None\<rparr>) = 1 \<or>
            access_token_version (stub_self\<lparr>tenant_id := None\<rparr>) = 2) \<and>
           get_argument stub_handler ''code'' = Inr ''c0de''"
    by (simp add: stub_self_def stub_handler_def)
  have s': "tenant_id (stub_self\<lparr>tenant_id := None, access_token_version := 2\<rparr>) = None \<and>
            token_url (stub_self\<lparr>tenant_id := None, access_token_version := 2\<rparr>) = None \<and>
            (access_token_version (stub_self\<lparr>tenant_id := None, access_token_version := 2\<rparr>) = 1 \<or>
             access_token_version (stub_self\<lparr>tenant_id := None, access_token_version := 2\<rparr>) = 2) \<and>
            get_argument stub_handler ''code'' = Inr ''c0de''"
    by (simp add: stub_self_def stub_handler_def)
  have e: "environ ((stub_env [(''token-body'', token_response)] alice_claims)
                      \<lparr>environ := [''AAD_TENANT_ID'' \<mapsto> ''xyz'']\<rparr>) ''AAD_TENANT_ID'' =
             Some ''xyz''"
    "environ (stub_env [(''token-body'', token_response)] alice_claims) ''AAD_TENANT_ID'' = None"
    by (simp_all add: stub_env_def)
  have v: "access_token_version (stub_self\<lparr>tenant_id := None\<rparr>) = 1"
    "access_token_version (stub_self\<lparr>tenant_id := None, access_token_version := 2\<rparr>) = 2"
    "requests (stub_self\<lparr>tenant_id := None\<rparr>) = []"
    "requests (stub_self\<lparr>tenant_id := None, access_token_version := 2\<rparr>) = []"
    by (simp_all add: stub_self_def)
  from missing_tenant_proceeds
         [of "(stub_env [(''token-body'', token_response)] alice_claims)
                \<lparr>environ := [''AAD_TENANT_ID'' \<mapsto> ''xyz'']\<rparr>"
             "stub_self\<lparr>tenant_id := None\<rparr>" stub_handler "''c0de''"] s
  have 1: "map url (requests (snd (authenticate
      ((stub_env [(''token-body'', token_response)] alice_claims)
         \<lparr>environ := [''AAD_TENANT_ID'' \<mapsto> ''xyz'']\<rparr>)
      stub_handler (stub_self\<lparr>tenant_id := None\<rparr>)))) =
     [''https://login.microsoftonline.com/xyz/oauth2/token'']"
    by (simp add: e v token_request_def)
  from missing_tenant_proceeds
         [of "stub_env [(''token-body'', token_response)] alice_claims"
             "stub_self\<lparr>tenant_id := None, access_token_version := 2\<rparr>" stub_handler "''c0de''"] s'
  have 2: "map url (requests (snd (authenticate
      (stub_env [(''token-body'', token_response)] alice_claims)
      stub_handler (stub_self\<lparr>tenant_id := None, access_token_version := 2\<rparr>)))) =
     [''https://login.microsoftonline.com//oauth2/v2.0/token'']"
    by (simp add: e v token_request_def)
  from 1 2 show ?thesis by (rule conjI)
qed

text \<open>
  The claim as the spec words it (a missing tenant is a configuration error) fails on
  the code: with no tenant configured and none in the environment, both URLs are
  derived and \<open>authenticate\<close> goes on to return an identity record.
\<close>

theorem missing_tenant_counterexample:
  "tenant_id_default (stub_env [(''token-body'', token_response)] alice_claims) = [] \<and>
   fst (authorize_url_default (stub_env [(''token-body'', token_response)] alice_claims)
          (stub_self\<lparr>tenant_id := None\<rparr>)) =
     Inr ''https://login.microsoftonline.com//oauth2/authorize'' \<and>
   fst (token_url_default (stub_env [(''token-body'', token_response)] alice_claims)
          (stub_self\<lparr>tenant_id := None\<rparr>)) =
     Inr ''https://login.microsoftonline.com//oauth2/token'' \<and>
   fst (authenticate (stub_env [(''token-body'', token_response)] alice_claims) stub_handler
          (stub_self\<lparr>tenant_id := None\<rparr>)) =
     Inr (userdict (PStr ''alice'') (PStr ''A'') alice_claims)"
  by (simp add: authenticate_fst fetch_fst loads_def get_token_url_def token_url_default_def
      authorize_url_default_def get_tenant_id_def tenant_id_default_def
      decode_id_token_def get_username_claim_fst username_claim_default_def
      token_request_def stub_env_def stub_self_def stub_handler_def token_response_def
      alice_claims_def)

subsection \<open>The identity record\<close>



text \<open>
  Claim C10. Every record \<open>authenticate\<close> returns has this shape: its \<open>name\<close> is the
  value stored under the configured username claim in \<open>auth_state.user\<close>, which is
  the decoded claims mapping; \<open>auth_state.access_token\<close> is the \<open>access_token\<close> entry
  of the token-endpoint response, unchanged; \<open>auth_state\<close> has the two keys
  \<open>access_token\<close> and \<open>user\<close> and no other, so the raw ID token is not stored in it.
\<close>

theorem authenticate_record_shape:
  assumes "fst (authenticate E h s) = Inr r"
  shows "\<exists>code u s1 resp_json s2 access_token id_token decoded name.
           get_argument h ''code'' = Inr code \<and>
           get_token_url E s = (Inr u, s1) \<and>
           fetch E (token_request E s h code u) s1 = (Inr resp_json, s2) \<and>
           getitem resp_json ''access_token'' = Inr access_token \<and>
           getitem resp_json ''id_token'' = Inr id_token \<and>
           decode_id_token E s id_token = Inr decoded \<and>
           map_of decoded (case username_claim s of None \<Rightarrow> ''name'' | Some c \<Rightarrow> c) =
             Some name \<and>
           r = PDict [(''name'', name),
                      (''auth_state'',
                         PDict [(''access_token'', access_token), (''user'', PDict decoded)])]"
proof -
  have "authenticate E h s = (Inr r, snd (authenticate E h s))"
    using assms by (metis prod.collapse)
  from authenticate_inversion [OF this]
  obtain code u s1 resp_json s2 access_token id_token decoded claim name where
    c: "get_argument h ''code'' = Inr code"
    and u: "get_token_url E s = (Inr u, s1)"
    and f: "fetch E (token_request E s h code u) s1 = (Inr resp_json, s2)"
    and a: "getitem resp_json ''access_token'' = Inr access_token"
    and i: "getitem resp_json ''id_token'' = Inr id_token"
    and d: "decode_id_token E s2 id_token = Inr decoded"
    and uc: "get_username_claim (s2\<lparr>warnings := warnings s2 @ [PDict decoded]\<rparr>) =
               (claim, snd (authenticate E h s))"
    and n: "getitem (PDict decoded) claim = Inr name"
    and r: "r = userdict name access_token decoded"
    by blast
  note fr = get_token_url_frame [OF u]
  have s2: "s2 = s1\<lparr>requests := requests s1 @ [token_request E s h code u]\<rparr>"
    using fetch_frame [OF f] .
  have cs: "client_id s2 = client_id s" using fr by (simp add: s2)
  have d': "decode_id_token E s id_token = Inr decoded"
    using d decode_id_token_cong [OF cs] by simp
  have "fst (get_username_claim (s2\<lparr>warnings := warnings s2 @ [PDict decoded]\<rparr>)) =
          (case username_claim s of None \<Rightarrow> ''name'' | Some c \<Rightarrow> c)"
    using fr by (simp add: s2 get_username_claim_fst username_claim_default_def
        split: option.split)
  then have "claim = (case username_claim s of None \<Rightarrow> ''name'' | Some c \<Rightarrow> c)"
    using uc by simp
  then have n': "map_of decoded (case username_claim s of None \<Rightarrow> ''name'' | Some c \<Rightarrow> c) =
                   Some name"
    using n by (simp split: option.splits)
  show ?thesis
    using c u f a i d' n' r unfolding userdict_def by blast
qed

theorem authenticate_record_shape_witness:
  "fst (authenticate (stub_env [(''token-body'', token_response)] alice_claims)
          stub_handler (stub_self\<lparr>username_claim := Some ''aud''\<rparr>)) =
     Inr (userdict (PStr ''client1'') (PStr ''A'') alice_claims) \<and>
   (\<exists>code u s1 resp_json s2 access_token id_token decoded name.
      get_argument stub_handler ''code'' = Inr code \<and>
      get_token_url (stub_env [(''token-body'', token_response)] alice_claims)
        (stub_self\<lparr>username_claim := Some ''aud''\<rparr>) = (Inr u, s1) \<and>
      fetch (stub_env [(''token-body'', token_response)] alice_claims)
        (token_request (stub_env [(''token-body'', token_response)] alice_claims)
           (stub_self\<lparr>username_claim := Some ''aud''\<rparr>) stub_handler code u) s1 =
        (Inr resp_json, s2) \<and>
      getitem resp_json ''access_token'' = Inr access_token \<and>
      getitem resp_json ''id_token'' = Inr id_token \<and>
      decode_id_token (stub_env [(''token-body'', token_response)] alice_claims)
        (stub_self\<lparr>username_claim := Some ''aud''\<rparr>) id_token = Inr decoded \<and>
      map_of decoded ''aud'' = Some name \<and>
      userdict (PStr ''client1'') (PStr ''A'') alice_claims =
        PDict [(''name'', name),
               (''auth_state'',
                  PDict [(''access_token'', access_token), (''user'', PDict decoded)])]) \<and>
   fst (authenticate (stub_env [(''token-body'', token_response)] alice_claims)
          stub_handler stub_self) =
     Inr (userdict (PStr ''alice'') (PStr ''A'') alice_claims) \<and>
   (\<exists>code u s1 resp_json s2 access_token id_token decoded name.
      get_argument stub_handler ''code'' = Inr code \<and>
      get_token_url (stub_env [(''token-body'', token_response)] alice_claims) stub_self =
        (Inr u, s1) \<and>
      fetch (stub_env [(''token-body'', token_response)] alice_claims)
        (token_request (stub_env [(''token-body'', token_response)] alice_claims)
           stub_self stub_handler code u) s1 = (Inr resp_json, s2) \<and>
      getitem resp_json ''access_token'' = Inr access_token \<and>
      getitem resp_json ''id_token'' = Inr id_token \<and>
      decode_id_token (stub_env [(''token-body'', token_response)] alice_claims)
        stub_self id_token = Inr decoded \<and>
      map_of decoded ''name'' = Some name \<and>
      userdict (PStr ''alice'') (PStr ''A'') alice_claims =
        PDict [(''name'', name),
               (''auth_state'',
                  PDict [(''access_token'', access_token), (''user'', PDict decoded)])])"
proof -
  have h: "fst (authenticate (stub_env [(''token-body'', token_response)] alice_claims)
                  stub_handler (stub_self\<lparr>username_claim := Some ''aud''\<rparr>)) =
             Inr (userdict (PStr ''client1'') (PStr ''A'') alice_claims)"
    by (simp add: stub_run_claim alice_claims_def)
  have c: "(case username_claim (stub_self\<lparr>username_claim := Some ''aud''\<rparr>) of
              None \<Rightarrow> ''name'' | Some c \<Rightarrow> c) = ''aud''"
    by simp
  have h0: "fst (authenticate (stub_env [(''token-body'', token_response)] alice_claims)
                   stub_handler stub_self) =
              Inr (userdict (PStr ''alice'') (PStr ''A'') alice_claims)"
    by (simp add: stub_run alice_claims_def)
  have c0: "(case username_claim stub_self of None \<Rightarrow> ''name'' | Some c \<Rightarrow> c) = ''name''"
    by (simp add: stub_self_def)
  from authenticate_record_shape [OF h, unfolded c]
       authenticate_record_shape [OF h0, unfolded c0] h h0
  show ?thesis by (intro conjI)
qed

text \<open>
  Claim C2, as the code has it. When the decoded payload lacks the configured username
  claim, \<open>authenticate\<close> fails with \<open>KeyError\<close> on that claim and returns no record.
  When the payload has the claim, the returned record carries the claim's value as
  its \<open>name\<close>, whatever that value is: the code does not test it for emptiness.
\<close>

theorem username_claim_lookup:
  assumes "get_argument h ''code'' = Inr code"
    and "get_token_url E s = (Inr u, s1)"
    and "fst (fetch E (token_request E s h code u) s1) = Inr resp_json"
    and "getitem resp_json ''access_token'' = Inr access_token"
    and "getitem resp_json ''id_token'' = Inr id_token"
    and "decode_id_token E s id_token = Inr decoded"
  shows "(map_of decoded (case username_claim s of None \<Rightarrow> ''name'' | Some c \<Rightarrow> c) = None \<longrightarrow>
            fst (authenticate E h s) =
              Inl (KeyError (case username_claim s of None \<Rightarrow> ''name'' | Some c \<Rightarrow> c))) \<and>
         (\<forall>name. map_of decoded (case username_claim s of None \<Rightarrow> ''name'' | Some c \<Rightarrow> c) =
                   Some name \<longrightarrow>
            fst (authenticate E h s) = Inr (userdict name access_token decoded)) \<and>
         (\<forall>r. fst (authenticate E h s) = Inr r \<longrightarrow>
            (\<exists>name. map_of decoded (case username_claim s of None \<Rightarrow> ''name'' | Some c \<Rightarrow> c) =
                      Some name \<and>
                    getitem r ''name'' = Inr name))"
proof -
  define k where "k = (case username_claim s of None \<Rightarrow> ''name'' | Some c \<Rightarrow> c)"
  have k: "fst (get_username_claim s) = k"
    by (simp add: k_def get_username_claim_fst username_claim_default_def split: option.split)
  have f: "fst (fetch E (token_request E s h code u) s) = Inr resp_json"
    using assms(3) by (simp add: fetch_fst)
  have a: "fst (authenticate E h s) =
             (case map_of decoded k of
                None \<Rightarrow> Inl (KeyError k)
              | Some name \<Rightarrow> Inr (userdict name access_token decoded))"
    using assms(1,2,4-6) f by (simp add: authenticate_fst k split: option.split)
  show ?thesis
    unfolding a k_def [symmetric] by (cases "map_of decoded k") (simp_all add: userdict_def)
qed

theorem username_claim_lookup_witness:
  "fst (authenticate (stub_env [(''token-body'', token_response)] [(''aud'', PStr ''client1'')])
          stub_handler stub_self) = Inl (KeyError ''name'') \<and>
   fst (authenticate (stub_env [(''token-body'', token_response)] alice_claims)
          stub_handler stub_self) = Inr (userdict (PStr ''alice'') (PStr ''A'') alice_claims) \<and>
   fst (authenticate (stub_env [(''token-body'', token_response)] [(''name'', PStr ''alice'')])
          stub_handler (stub_self\<lparr>username_claim := Some ''aud''\<rparr>)) = Inl (KeyError ''aud'') \<and>
   fst (authenticate (stub_env [(''token-body'', token_response)] alice_claims)
          stub_handler (stub_self\<lparr>username_claim := Some ''aud''\<rparr>)) =
     Inr (userdict (PStr ''client1'') (PStr ''A'') alice_claims)"
proof -
  have 4: "getitem token_response ''access_token'' = Inr (PStr ''A'')"
    and 5: "getitem token_response ''id_token'' = Inr (PStr ''h.p.sig'')"
    by (simp_all add: token_response_def)
  have 3: "fst (fetch (stub_env [(''token-body'', token_response)] claims)
                  (token_request (stub_env [(''token-body'', token_response)] claims)
                     t stub_handler ''c0de''
                     ''https://login.microsoftonline.com/abc/oauth2/token'') t') =
             Inr token_response" for claims t t'
    by (simp add: stub_fetch)
  have n: "(case username_claim stub_self of None \<Rightarrow> ''name'' | Some c \<Rightarrow> c) = ''name''"
    by (simp add: stub_self_def)
  have m: "(case username_claim (stub_self\<lparr>username_claim := Some ''aud''\<rparr>) of
              None \<Rightarrow> ''name'' | Some c \<Rightarrow> c) = ''aud''"
    by simp
  note d = username_claim_lookup [OF stub_code stub_token_url 3 4 5 stub_decode, unfolded n]
  note c = username_claim_lookup [OF stub_code stub_token_url_claim 3 4 5 stub_decode,
      unfolded m]
  have "map_of [(''aud'', PStr ''client1'')] ''name'' = None" by simp
  with d [of "[(''aud'', PStr ''client1'')]"]
  have 1: "fst (authenticate (stub_env [(''token-body'', token_response)]
               [(''aud'', PStr ''client1'')]) stub_handler stub_self) = Inl (KeyError ''name'')"
    by simp
  have "map_of alice_claims ''name'' = Some (PStr ''alice'')" by (simp add: alice_claims_def)
  with d [of alice_claims]
  have 2: "fst (authenticate (stub_env [(''token-body'', token_response)] alice_claims)
               stub_handler stub_self) =
          Inr (userdict (PStr ''alice'') (PStr ''A'') alice_claims)"
    by simp
  have "map_of [(''name'', PStr ''alice'')] ''aud'' = None" by simp
  with c [of "[(''name'', PStr ''alice'')]" "Some ''aud''"]
  have 3: "fst (authenticate (stub_env [(''token-body'', token_response)]
               [(''name'', PStr ''alice'')]) stub_handler
               (stub_self\<lparr>username_claim := Some ''aud''\<rparr>)) = Inl (KeyError ''aud'')"
    by simp
  have "map_of alice_claims ''aud'' = Some (PStr ''client1'')" by (simp add: alice_claims_def)
  with c [of alice_claims "Some ''aud''"]
  have 4: "fst (authenticate (stub_env [(''token-body'', token_response)] alice_claims)
               stub_handler (stub_self\<lparr>username_claim := Some ''aud''\<rparr>)) =
          Inr (userdict (PStr ''client1'') (PStr ''A'') alice_claims)"
    by simp
  from 1 2 3 4 show ?thesis by (intro conjI)
qed

text \<open>
  The second half of the claim as the spec words it (a successful call never returns an
  empty username) fails on the code: an ID token whose \<open>name\<close> claim is the empty
  string yields a record with the empty username.
\<close>

theorem empty_username_counterexample:
  "fst (authenticate (stub_env [(''token-body'', token_response)] [(''name'', PStr '''')])
          stub_handler stub_self) =
     Inr (PDict [(''name'', PStr ''''),
                 (''auth_state'',
                    PDict [(''access_token'', PStr ''A''),
                           (''user'', PDict [(''name'', PStr '''')])])])"
  by (simp add: stub_run userdict_def)

subsection \<open>Malformed token responses\<close>



subsection \<open>ID token decoding\<close>

text \<open>
  What the code itself does when it decodes the ID token: with PyJWT 2 it passes
  \<open>options={"verify_signature": False}\<close> and \<open>audience=self.client_id\<close>, otherwise
  \<open>verify=False\<close>; an exception of \<open>jwt.decode\<close> ends \<open>authenticate\<close> with that
  exception. Whether \<open>jwt.decode\<close> compares the \<open>aud\<close> claim with the audience
  under these options is decided inside PyJWT.
\<close>

lemma decode_id_token_calls:
  "decode_id_token (E\<lparr>PYJWT_2 := True\<rparr>) s id_token =
     jwt_decode E id_token
       \<lparr>kw_options = Some [(''verify_signature'', False)],
        kw_audience = Some (client_id s), kw_verify = None\<rparr> \<and>
   decode_id_token (E\<lparr>PYJWT_2 := False\<rparr>) s id_token =
     jwt_decode E id_token \<lparr>kw_options = None, kw_audience = None, kw_verify = Some False\<rparr>"
  by (simp add: decode_id_token_def)

lemma decode_failure_propagates:
  assumes "get_argument h ''code'' = Inr code"
    and "get_token_url E s = (Inr u, s1)"
    and "fst (fetch E (token_request E s h code u) s1) = Inr resp_json"
    and "getitem resp_json ''access_token'' = Inr access_token"
    and "getitem resp_json ''id_token'' = Inr id_token"
    and "decode_id_token E s id_token = Inl e"
  shows "fst (authenticate E h s) = Inl e"
proof -
  have f: "fst (fetch E (token_request E s h code u) s) = Inr resp_json"
    using assms(3) by (simp add: fetch_fst)
  show ?thesis
    using assms(1,2,4-6) f by (simp add: authenticate_fst)
qed

subsection \<open>Directory attribute lookup\<close>

text \<open>
  Claim C7. For every object identifier \<open>oid\<close>, when both calls are answered as
  expected, \<open>get_user_attributes\<close> sends exactly two requests, in this order: a POST to
  the token URL whose form body encodes \<open>scope=https://graph.microsoft.com/.default\<close>,
  \<open>client_secret\<close>, \<open>grant_type=client_credentials\<close> and \<open>client_id\<close>, from whose
  JSON response it takes \<open>access_token\<close>; then a GET to
  \<open>https://graph.microsoft.com/v1.0/users/oid\<close> with the header
  \<open>Authorization: Bearer access_token\<close>. It returns the JSON of the second response
  as it is.
\<close>

theorem get_user_attributes_two_calls:
  assumes "get_token_url E s = (Inr u, s1)"
    and "http_fetch E (credentials_request E s u) = Inr b"
    and "json_loads E b = Some resp_json"
    and "getitem resp_json ''access_token'' = Inr access_token"
    and "http_fetch E (graph_request E oid access_token) = Inr b'"
    and "json_loads E b' = Some attrs"
  shows "get_user_attributes E oid s =
           (Inr attrs,
            s1\<lparr>requests := requests s @
                   [credentials_request E s u, graph_request E oid access_token]\<rparr>) \<and>
         credentials_request E s u =
           \<lparr>url = u, http_method = ''POST'',
            headers = [(''Content-Type'', ''application/x-www-form-urlencoded; charset=UTF-8'')],
            body = Some (urlencode E
              [(''scope'', PList [PStr ''https://graph.microsoft.com/.default'']),
               (''client_secret'', PStr (client_secret s)),
               (''grant_type'', PStr ''client_credentials''),
               (''client_id'', PStr (client_id s))])\<rparr> \<and>
         graph_request E oid access_token =
           \<lparr>url = ''https://graph.microsoft.com/v1.0/users/'' @ oid, http_method = ''GET'',
            headers = [(''Authorization'', ''Bearer '' @ format_str E access_token)],
            body = None\<rparr> \<and>
         format_str E (PStr tok) = tok"
proof -
  have rq: "requests s1 = requests s"
    using get_token_url_frame [OF assms(1)] by simp
  have "get_user_attributes E oid s =
          (Inr attrs,
           s1\<lparr>requests := requests s @
                  [credentials_request E s u, graph_request E oid access_token]\<rparr>)"
    unfolding get_user_attributes_def using assms rq
    by (simp add: client_fetch_def loads_def del: getitem.simps)
  then show ?thesis
    by (simp add: credentials_request_def credentials_params_def content_type_headers_def
        graph_request_def format_str_def)
qed

theorem get_user_attributes_two_calls_witness:
  "get_user_attributes
     (stub_env [(''token-body'', PDict [(''access_token'', PStr ''T'')]),
                (''graph-body'', PDict [(''displayName'', PStr ''Alice'')])] [])
     ''42'' stub_self =
   (Inr (PDict [(''displayName'', PStr ''Alice'')]),
    stub_self
      \<lparr>token_url := Some ''https://login.microsoftonline.com/abc/oauth2/token'',
       requests :=
         [\<lparr>url = ''https://login.microsoftonline.com/abc/oauth2/token'', http_method = ''POST'',
           headers = [(''Content-Type'', ''application/x-www-form-urlencoded; charset=UTF-8'')],
           body = Some ''scope&client_secret&grant_type&client_id&''\<rparr>,
          \<lparr>url = ''https://graph.microsoft.com/v1.0/users/42'', http_method = ''GET'',
           headers = [(''Authorization'', ''Bearer T'')], body = None\<rparr>]\<rparr>)"
proof -
  let ?E = "stub_env [(''token-body'', PDict [(''access_token'', PStr ''T'')]),
                      (''graph-body'', PDict [(''displayName'', PStr ''Alice'')])] []"
  let ?u = "''https://login.microsoftonline.com/abc/oauth2/token''"
  have 2: "http_fetch ?E (credentials_request ?E stub_self ?u) = Inr ''token-body''"
    by (simp add: stub_env_def credentials_request_def)
  have 3: "json_loads ?E ''token-body'' = Some (PDict [(''access_token'', PStr ''T'')])"
    by (simp add: stub_env_def)
  have 4: "getitem (PDict [(''access_token'', PStr ''T'')]) ''access_token'' = Inr (PStr ''T'')"
    by simp
  have 5: "http_fetch ?E (graph_request ?E ''42'' (PStr ''T'')) = Inr ''graph-body''"
    by (simp add: stub_env_def graph_request_def)
  have 6: "json_loads ?E ''graph-body'' = Some (PDict [(''displayName'', PStr ''Alice'')])"
    by (simp add: stub_env_def)
  have r: "requests stub_self = []" "client_id stub_self = ''client1''"
    "client_secret stub_self = ''s3cret''"
    by (simp_all add: stub_self_def)
  have e: "urlencode ?E ps = concat (map (\<lambda>p. fst p @ ''&'') ps)"
    "format_str ?E (PStr x) = x" for ps x
    by (simp_all add: stub_env_def format_str_def)
  from get_user_attributes_two_calls [OF stub_token_url 2 3 4 5 6]
  show ?thesis by (simp add: r e)
qed

end
